theory Spec2Isabelle
  imports Main
begin

section \<open>JavaScript values\<close>

text \<open>
  The sources are TypeScript whose interesting parameters are typed \<open>any\<close>, so the
  embedding works over an untyped value universe. \<open>JFun n\<close> is a reference to the
  function (or class) object number \<open>n\<close>; \<open>JError m\<close> is the object built by
  \<^verbatim>\<open>new Error(m)\<close>. Numbers are the integers only: no claim reads a fraction or NaN.
  A thrown exception is any value, so a computation that may raise has a result of type
  \<open>jsval + 'a\<close>, with \<open>Inl\<close> carrying the thrown value.
\<close>

datatype jsval =
    JUndefined
  | JNull
  | JBool bool
  | JNum int
  | JStr string
  | JArr "jsval list"
  | JObj "(string \<times> jsval) list"
  | JFun nat
  | JError string

text \<open>What \<^verbatim>\<open>if (v)\<close>, \<^verbatim>\<open>!v\<close> and \<^verbatim>\<open>v ? a : b\<close> test.\<close>

fun truthy :: "jsval \<Rightarrow> bool" where
  "truthy JUndefined = False"
| "truthy JNull = False"
| "truthy (JBool b) = b"
| "truthy (JNum n) = (n \<noteq> 0)"
| "truthy (JStr s) = (s \<noteq> [])"
| "truthy (JArr xs) = True"
| "truthy (JObj kvs) = True"
| "truthy (JFun n) = True"
| "truthy (JError m) = True"

text \<open>The \<^verbatim>\<open>typeof\<close> operator; \<^verbatim>\<open>typeof null\<close> is \<^verbatim>\<open>'object'\<close>.\<close>

fun typeof :: "jsval \<Rightarrow> string" where
  "typeof JUndefined = ''undefined''"
| "typeof JNull = ''object''"
| "typeof (JBool b) = ''boolean''"
| "typeof (JNum n) = ''number''"
| "typeof (JStr s) = ''string''"
| "typeof (JArr xs) = ''object''"
| "typeof (JObj kvs) = ''object''"
| "typeof (JFun n) = ''function''"
| "typeof (JError m) = ''object''"

fun isArray :: "jsval \<Rightarrow> bool" where
  "isArray (JArr xs) = True"
| "isArray v = False"

text \<open>The exception of a call on something that is not a function; only the kind is kept.\<close>

definition TypeError :: jsval where
  "TypeError = JError ''TypeError''"


section \<open>The topic bus: \<^verbatim>\<open>Events\<close> (providers/backend/events.ts)\<close>

text \<open>
  \<^verbatim>\<open>private channels: Array<any> = []\<close> is a JavaScript array used as a map from
  topic to array of handlers, so \<^verbatim>\<open>this.channels[topic]\<close> finds three kinds of property:
  the entries that \<^verbatim>\<open>subscribe\<close> stored, the array's own \<^verbatim>\<open>length\<close>, and whatever the
  prototype chain of the array provides (\<^verbatim>\<open>push\<close>, \<^verbatim>\<open>constructor\<close>, ...). All three are
  in the model. The arrays of handlers are objects that are mutated in place and that a
  running \<^verbatim>\<open>publish\<close> keeps a reference to, so they live in a store, by address.

  A handler is a function object; the arrays hold references, compared by identity in
  \<^verbatim>\<open>indexOf\<close>, so a handler is its reference \<open>hid\<close>.
\<close>

type_synonym hid = nat

type_synonym addr = nat

text \<open>What a property of \<^verbatim>\<open>channels\<close> holds: an array of the store, or a value that is
  not an array (a number, a function, ...).\<close>

datatype slot = Arr addr | Other jsval

record Events =
  channels :: "string \<rightharpoonup> addr"
  arrays :: "addr \<Rightarrow> hid list"
  fresh :: addr
  len :: nat
  builtin :: "string \<rightharpoonup> slot"

text \<open>
  \<open>channels\<close> are the entries stored by \<^verbatim>\<open>subscribe\<close>, \<open>arrays\<close> is the store, \<open>fresh\<close>
  the next unused address, \<open>len\<close> the \<^verbatim>\<open>length\<close> of the \<^verbatim>\<open>channels\<close> array and \<open>builtin\<close>
  what its prototype chain provides in the engine at hand. A new bus:
\<close>

definition new_Events :: "(string \<rightharpoonup> slot) \<Rightarrow> Events" where
  "new_Events chain =
     \<lparr>channels = Map.empty, arrays = (\<lambda>a. []), fresh = 0, len = 0, builtin = chain\<rparr>"

text \<open>
  What a handler does when called, \<^verbatim>\<open>handler.apply(null, args)\<close>: it returns a value or
  throws one, and it may change the bus (a handler can subscribe and unsubscribe).
\<close>

type_synonym 'a handlers = "hid \<Rightarrow> 'a list \<Rightarrow> Events \<Rightarrow> (jsval + jsval) \<times> Events"

text \<open>
  A property name is an array index when it is the decimal numeral, without leading
  zeros, of a number below \<open>2^32 - 1\<close>; storing under an index raises \<^verbatim>\<open>length\<close>.
\<close>

fun digits_value :: "string \<Rightarrow> nat \<Rightarrow> nat option" where
  "digits_value [] acc = Some acc"
| "digits_value (c # cs) acc =
     (if 48 \<le> (of_char c :: nat) \<and> (of_char c :: nat) \<le> 57
      then digits_value cs (10 * acc + ((of_char c :: nat) - 48)) else None)"

definition array_index :: "string \<Rightarrow> nat option" where
  "array_index s =
     (if s = [] then None
      else if hd s = CHR ''0'' \<and> tl s \<noteq> [] then None
      else (case digits_value s 0 of
              None \<Rightarrow> None
            | Some n \<Rightarrow> if n < 4294967295 then Some n else None))"

text \<open>\<^verbatim>\<open>this.channels[topic]\<close>, read. \<open>None\<close> is undefined.\<close>

definition channels_get :: "Events \<Rightarrow> string \<Rightarrow> slot option" where
  "channels_get this topic =
     (if topic = ''length'' then Some (Other (JNum (int (len this))))
      else (case channels this topic of
              Some a \<Rightarrow> Some (Arr a)
            | None \<Rightarrow> builtin this topic))"

text \<open>The test \<^verbatim>\<open>if (!t)\<close> fails, that is \<^verbatim>\<open>t\<close> is truthy.\<close>

fun present :: "slot option \<Rightarrow> bool" where
  "present None = False"
| "present (Some (Arr a)) = True"
| "present (Some (Other v)) = truthy v"

text \<open>
  \<^verbatim>\<open>this.channels[topic] = []\<close>. Under \<^verbatim>\<open>length\<close> the assignment sets the length of
  \<^verbatim>\<open>channels\<close> to 0, which removes every entry stored under an index, and stores no
  array.
\<close>

definition channels_set_empty :: "string \<Rightarrow> Events \<Rightarrow> Events" where
  "channels_set_empty topic this =
     (if topic = ''length''
      then this\<lparr>len := 0,
                channels := (\<lambda>k. if array_index k = None then channels this k else None)\<rparr>
      else this\<lparr>channels := (channels this)(topic \<mapsto> fresh this),
                arrays := (arrays this)(fresh this := []),
                fresh := Suc (fresh this),
                len := (case array_index topic of
                          None \<Rightarrow> len this
                        | Some i \<Rightarrow> max (len this) (Suc i))\<rparr>)"

text \<open>
  \<^verbatim>\<open>handlers.forEach((handler) => { this.channels[topic].push(handler); })\<close>: each
  round reads the property again; \<^verbatim>\<open>push\<close> on what is not an array is a TypeError.
\<close>

fun push_each :: "string \<Rightarrow> hid list \<Rightarrow> Events \<Rightarrow> (jsval + unit) \<times> Events" where
  "push_each topic [] this = (Inr (), this)"
| "push_each topic (handler # rest) this =
     (case channels_get this topic of
        Some (Arr a) \<Rightarrow>
          push_each topic rest (this\<lparr>arrays := (arrays this)(a := arrays this a @ [handler])\<rparr>)
      | _ \<Rightarrow> (Inl TypeError, this))"

text \<open>\<^verbatim>\<open>subscribe(topic, ...handlers)\<close>\<close>

definition subscribe :: "string \<Rightarrow> hid list \<Rightarrow> Events \<Rightarrow> (jsval + unit) \<times> Events" where
  "subscribe topic handlers this =
     push_each topic handlers
       (if \<not> present (channels_get this topic) then channels_set_empty topic this else this)"






text \<open>
  The loop of \<^verbatim>\<open>publish\<close>: \<^verbatim>\<open>t.forEach(h => responses.push(h.apply(null, args)))\<close>, on
  the array at address \<open>a\<close>. \<^verbatim>\<open>forEach\<close> reads the length once, before the first round
  (\<open>n\<close> counts the rounds that remain, \<open>k\<close> is the index of the round), and in each round
  looks at the array as it then is: an index that the array no longer has is passed
  over. The second component lists the calls made, in order. A handler that throws ends
  the loop, since nothing catches the exception here.
\<close>

fun forEach_push ::
  "'a handlers \<Rightarrow> addr \<Rightarrow> 'a list \<Rightarrow> nat \<Rightarrow> nat \<Rightarrow> jsval list \<Rightarrow> (hid \<times> 'a list) list \<Rightarrow> Events
     \<Rightarrow> (jsval + jsval list) \<times> (hid \<times> 'a list) list \<times> Events" where
  "forEach_push call a args 0 k responses made this = (Inr responses, made, this)"
| "forEach_push call a args (Suc n) k responses made this =
     (if k < length (arrays this a)
      then (let handler = arrays this a ! k in
            case call handler args this of
              (Inl e, this1) \<Rightarrow> (Inl e, made @ [(handler, args)], this1)
            | (Inr v, this1) \<Rightarrow>
                forEach_push call a args n (Suc k) (responses @ [v]) (made @ [(handler, args)])
                  this1)
      else forEach_push call a args n (Suc k) responses made this)"

text \<open>
  \<^verbatim>\<open>publish(topic, ...args)\<close>: the outcome, the handler calls made and the bus after the
  call. \<^verbatim>\<open>t.forEach\<close> on what is not an array is a TypeError.
\<close>

definition publish ::
  "'a handlers \<Rightarrow> Events \<Rightarrow> string \<Rightarrow> 'a list
     \<Rightarrow> (jsval + jsval) \<times> (hid \<times> 'a list) list \<times> Events" where
  "publish call this topic args =
     (let t = channels_get this topic in
      if \<not> present t then (Inr JNull, [], this)
      else (case t of
              Some (Arr a) \<Rightarrow>
                (case forEach_push call a args (length (arrays this a)) 0 [] [] this of
                   (Inl e, made, this1) \<Rightarrow> (Inl e, made, this1)
                 | (Inr responses, made, this1) \<Rightarrow> (Inr (JArr responses), made, this1))
            | _ \<Rightarrow> (Inl TypeError, [], this)))"



section \<open>The collection transform: \<^verbatim>\<open>ModelCollection\<close> (providers/mapper/model/collection.ts)\<close>

record ModelCollection =
  model :: jsval
  path :: "string option"

text \<open>The constructor, with its validity check as written.\<close>

definition ModelCollection_new :: "jsval \<Rightarrow> string option \<Rightarrow> jsval + ModelCollection" where
  "ModelCollection_new m p =
     (if typeof m \<noteq> ''object'' \<and> m = JNull
      then Inl (JError ''Data type model invalid'')
      else Inr \<lparr>model = m, path = p\<rparr>)"

text \<open>
  \<^verbatim>\<open>transform(data)\<close>. Three things it calls are not of this repository and are
  parameters: \<open>json\<close> is \<^verbatim>\<open>data.json()\<close> of @angular/http, \<open>query\<close> is \<^verbatim>\<open>jp.query\<close> of
  the JSONPath library, and \<open>construct m x\<close> is \<^verbatim>\<open>new m(x)\<close> for the model class the
  caller supplied. Each may throw.
\<close>

text \<open>Lines 14-18: the value the array check is applied to. \<^verbatim>\<open>if (this.path)\<close> fails for an
  absent and for an empty path.\<close>

definition extracted ::
  "('d \<Rightarrow> jsval + jsval) \<Rightarrow> (jsval \<Rightarrow> string \<Rightarrow> jsval + jsval) \<Rightarrow> ModelCollection \<Rightarrow> 'd
     \<Rightarrow> jsval + jsval" where
  "extracted json query this data =
     (case json data of
        Inl e \<Rightarrow> Inl e
      | Inr result \<Rightarrow>
          (case path this of
             None \<Rightarrow> Inr result
           | Some p \<Rightarrow> if p = [] then Inr result else query result p))"

text \<open>Lines 24-27: the loop that pushes \<^verbatim>\<open>new this.model(result[i])\<close> for i = 0, 1, ...\<close>

fun construct_each ::
  "(jsval \<Rightarrow> jsval \<Rightarrow> jsval + 'i) \<Rightarrow> jsval \<Rightarrow> jsval list \<Rightarrow> 'i list \<Rightarrow> jsval + 'i list" where
  "construct_each construct m [] models = Inr models"
| "construct_each construct m (x # xs) models =
     (case construct m x of
        Inl e \<Rightarrow> Inl e
      | Inr inst \<Rightarrow> construct_each construct m xs (models @ [inst]))"

definition ModelCollection_transform ::
  "('d \<Rightarrow> jsval + jsval) \<Rightarrow> (jsval \<Rightarrow> string \<Rightarrow> jsval + jsval) \<Rightarrow> (jsval \<Rightarrow> jsval \<Rightarrow> jsval + 'i)
     \<Rightarrow> ModelCollection \<Rightarrow> 'd \<Rightarrow> jsval + 'i list" where
  "ModelCollection_transform json query construct this data =
     (case extracted json query this data of
        Inl e \<Rightarrow> Inl e
      | Inr result \<Rightarrow>
          if \<not> isArray result then Inl (JError ''Returns should be Array'')
          else (case result of
                  JArr elems \<Rightarrow> construct_each construct (model this) elems []
                | _ \<Rightarrow> Inr []))"


section \<open>The multiple transform: \<^verbatim>\<open>ModelMultiple\<close> (unnamed/part_000)\<close>

definition TypeModel_Simple :: string where
  "TypeModel_Simple = ''simple''"

definition TypeModel_Collection :: string where
  "TypeModel_Collection = ''collection''"

text \<open>
  What \<^verbatim>\<open>this.types[name]\<close> can hold: one of the two classes that the constructor
  registers, any other value that \<^verbatim>\<open>addType\<close> was given (its \<^verbatim>\<open>model\<close> parameter is
  \<^verbatim>\<open>any\<close>), or a member that the \<^verbatim>\<open>types\<close> object inherits under that name.
\<close>

datatype model_class =
    ModelSimple_class
  | ModelCollection_class
  | Registered jsval
  | Inherited_member string

record MapperOptions =
  mo_type :: string
  mo_model :: jsval
  mo_path :: "string option"

text \<open>
  \<^verbatim>\<open>types\<close> is a plain object, \<^verbatim>\<open>{}\<close>, used as a map from type name to class. Besides
  the entries that \<^verbatim>\<open>addType\<close> stored, a lookup finds what the object inherits; what
  it inherits from is \<^verbatim>\<open>Object.prototype\<close>, until an assignment under the name
  \<^verbatim>\<open>__proto__\<close> replaces or removes the prototype.
\<close>

datatype prototype = Object_prototype | No_prototype | Prototype_is model_class

text \<open>
  The mapper specification is an object; it is held as the list of its entries in the
  order in which \<^verbatim>\<open>for (let key in this.mapper)\<close> visits them.
\<close>

record ModelMultiple =
  mapper :: "(string \<times> MapperOptions) list"
  types :: "string \<rightharpoonup> model_class"
  types_prototype :: prototype

text \<open>A value that can be a prototype: an object or a function, not a primitive.\<close>

definition is_object :: "jsval \<Rightarrow> bool" where
  "is_object v = ((typeof v = ''object'' \<or> typeof v = ''function'') \<and> v \<noteq> JNull)"

text \<open>
  \<^verbatim>\<open>addType(type, model)\<close> is \<^verbatim>\<open>this.types[type] = model\<close>. Under the name
  \<^verbatim>\<open>__proto__\<close> this sets the prototype (to an object or function, or to none for
  null) or does nothing (for any other primitive); it stores no entry.
\<close>

definition addType :: "string \<Rightarrow> model_class \<Rightarrow> ModelMultiple \<Rightarrow> ModelMultiple" where
  "addType ty m this =
     (if ty = ''__proto__''
      then (case m of
              Registered v \<Rightarrow>
                if v = JNull then this\<lparr>types_prototype := No_prototype\<rparr>
                else if is_object v then this\<lparr>types_prototype := Prototype_is m\<rparr>
                else this
            | _ \<Rightarrow> this\<lparr>types_prototype := Prototype_is m\<rparr>)
      else this\<lparr>types := (types this)(ty \<mapsto> m)\<rparr>)"

text \<open>The constructor stores the specification and registers the two types; it has no
  statement that throws.\<close>

definition ModelMultiple_new :: "(string \<times> MapperOptions) list \<Rightarrow> jsval + ModelMultiple" where
  "ModelMultiple_new spec =
     Inr (addType TypeModel_Collection ModelCollection_class
           (addType TypeModel_Simple ModelSimple_class
              \<lparr>mapper = spec, types = Map.empty, types_prototype = Object_prototype\<rparr>))"

text \<open>
  \<^verbatim>\<open>this.types[name]\<close>, read. \<open>inherited p name\<close> says whether the prototype chain that
  starts at \<open>p\<close> provides a truthy value under \<open>name\<close> in the engine at hand; it is a
  parameter. \<open>None\<close> is undefined.
\<close>

definition types_get ::
  "(prototype \<Rightarrow> string \<Rightarrow> bool) \<Rightarrow> ModelMultiple \<Rightarrow> string \<Rightarrow> model_class option" where
  "types_get inherited this name =
     (case types this name of
        Some c \<Rightarrow> Some c
      | None \<Rightarrow>
          if inherited (types_prototype this) name then Some (Inherited_member name) else None)"

text \<open>Whether a value found by the lookup is truthy; classes and functions are.\<close>

fun class_truthy :: "model_class \<Rightarrow> bool" where
  "class_truthy (Registered v) = truthy v"
| "class_truthy c = True"

text \<open>
  The loop of \<^verbatim>\<open>transform\<close>. \<open>lookup\<close> is \<^verbatim>\<open>this.types[...]\<close>, and the test
  \<^verbatim>\<open>if (!this.types[...])\<close> succeeds for undefined and for a falsy value.
  \<open>run ty m p data\<close> is \<^verbatim>\<open>Mapper.create(ty, m, p).transform(data)\<close>; the class
  \<^verbatim>\<open>Mapper\<close> (\<^verbatim>\<open>../mapper\<close>) is not among the sources and is a parameter.
  \<^verbatim>\<open>results\<close> is a plain object as well: \<^verbatim>\<open>results[key] = ...\<close> under the key
  \<^verbatim>\<open>__proto__\<close> stores no entry.
\<close>

fun transform_keys ::
  "(model_class \<Rightarrow> jsval \<Rightarrow> string option \<Rightarrow> 'd \<Rightarrow> jsval + 'r) \<Rightarrow> (string \<Rightarrow> model_class option) \<Rightarrow> 'd
     \<Rightarrow> (string \<times> MapperOptions) list \<Rightarrow> (string \<rightharpoonup> 'r) \<Rightarrow> jsval + (string \<rightharpoonup> 'r)" where
  "transform_keys run lookup data [] results = Inr results"
| "transform_keys run lookup data ((key, opt) # rest) results =
     (case lookup (mo_type opt) of
        None \<Rightarrow> Inl (JError (''Type '' @ mo_type opt @ '' not exits''))
      | Some ty \<Rightarrow>
          if \<not> class_truthy ty
          then Inl (JError (''Type '' @ mo_type opt @ '' not exits''))
          else (case run ty (mo_model opt) (mo_path opt) data of
                  Inl e \<Rightarrow> Inl e
                | Inr r \<Rightarrow>
                    transform_keys run lookup data rest
                      (if key = ''__proto__'' then results else results(key \<mapsto> r))))"

definition ModelMultiple_transform ::
  "(prototype \<Rightarrow> string \<Rightarrow> bool) \<Rightarrow> (model_class \<Rightarrow> jsval \<Rightarrow> string option \<Rightarrow> 'd \<Rightarrow> jsval + 'r)
     \<Rightarrow> ModelMultiple \<Rightarrow> 'd \<Rightarrow> jsval + (string \<rightharpoonup> 'r)" where
  "ModelMultiple_transform inherited run this data =
     transform_keys run (types_get inherited this) data (mapper this) Map.empty"

text \<open>A rule whose type lookup is truthy and whose own transform returns.\<close>

definition rule_maps ::
  "(model_class \<Rightarrow> jsval \<Rightarrow> string option \<Rightarrow> 'd \<Rightarrow> jsval + 'r) \<Rightarrow> (string \<Rightarrow> model_class option) \<Rightarrow> 'd
     \<Rightarrow> MapperOptions \<Rightarrow> bool" where
  "rule_maps run lookup data opt =
     (case lookup (mo_type opt) of
        None \<Rightarrow> False
      | Some ty \<Rightarrow>
          class_truthy ty
          \<and> (case run ty (mo_model opt) (mo_path opt) data of Inl e \<Rightarrow> False | Inr r \<Rightarrow> True))"


section \<open>The XHR connection (providers/backend/xhr_backend.ts)\<close>

subsection \<open>Sequencing statements that may throw\<close>

text \<open>
  A statement is given by its outcome and the calls it logged. \<open>in_sequence\<close> runs
  statements in order and stops at the first one that throws, as JavaScript does when
  nothing catches the exception.
\<close>

fun in_sequence :: "((jsval + unit) \<times> 's list) list \<Rightarrow> (jsval + unit) \<times> 's list" where
  "in_sequence [] = (Inr (), [])"
| "in_sequence ((Inl e, tr) # rest) = (Inl e, tr)"
| "in_sequence ((Inr u, tr) # rest) = (case in_sequence rest of (r, tr') \<Rightarrow> (r, tr @ tr'))"

subsection \<open>Lifecycle events\<close>

datatype lifecycle = PRE_REQUEST | POST_REQUEST | POST_REQUEST_SUCCESS | POST_REQUEST_ERROR

text \<open>What a completion handler of the connection does that an observer of the run can see.\<close>

datatype 'r step =
    Fired lifecycle 'r
  | Next 'r
  | Complete
  | ErrorCb 'r

text \<open>
  Modelled from the spec: the class \<^verbatim>\<open>HttpEvents\<close> that \<^verbatim>\<open>xhr_backend.ts\<close> imports from
  \<^verbatim>\<open>./utils\<close> is not among the sources. The spec (4.2 and 3) fixes that it wraps the topic
  bus with four fixed topics and that each of \<^verbatim>\<open>postRequestSuccess\<close>,
  \<^verbatim>\<open>postRequestError\<close> and \<^verbatim>\<open>postRequest\<close> publishes its topic with the response as
  the only argument; the spec (4.1, 7) also fixes that an exception of a handler is not
  caught by the bus. The topic strings themselves are not given; each event is its name.
\<close>

fun topic_of :: "lifecycle \<Rightarrow> string" where
  "topic_of PRE_REQUEST = ''PRE_REQUEST''"
| "topic_of POST_REQUEST = ''POST_REQUEST''"
| "topic_of POST_REQUEST_SUCCESS = ''POST_REQUEST_SUCCESS''"
| "topic_of POST_REQUEST_ERROR = ''POST_REQUEST_ERROR''"

text \<open>
  Modelled from the spec: the methods \<^verbatim>\<open>postRequestSuccess\<close>, \<^verbatim>\<open>postRequestError\<close> and
  \<^verbatim>\<open>postRequest\<close> of the absent \<^verbatim>\<open>HttpEvents\<close>. \<open>fire\<close> publishes the topic of the
  event with the response as the only argument, logs the publication, and throws what
  \<^verbatim>\<open>publish\<close> throws. The handlers of the lifecycle events are given by their results
  (\<open>call h args\<close> is \<open>Inr v\<close> for a return and \<open>Inl e\<close> for a throw) and leave the bus
  as it is.
\<close>

type_synonym 'a calls = "hid \<Rightarrow> 'a list \<Rightarrow> jsval + jsval"

definition fire :: "'r calls \<Rightarrow> Events \<Rightarrow> lifecycle \<Rightarrow> 'r \<Rightarrow> (jsval + unit) \<times> 'r step list" where
  "fire call ch ev resp =
     ((case fst (publish (\<lambda>h args this. (call h args, this)) ch (topic_of ev) [resp]) of
         Inl e \<Rightarrow> Inl e
       | Inr v \<Rightarrow> Inr ()),
      [Fired ev resp])"

subsection \<open>The transport object and the response\<close>

text \<open>
  The fields of the \<^verbatim>\<open>XMLHttpRequest\<close> that the completion handlers read.
  \<open>xhr_response = JUndefined\<close> is a browser without the \<^verbatim>\<open>response\<close> property.
\<close>

record XMLHttpRequest =
  xhr_status :: nat
  xhr_response :: jsval
  xhr_responseText :: string
  xhr_statusText :: string

datatype ResponseType = Default | Error

text \<open>
  \<^verbatim>\<open>ResponseOptions\<close> and \<^verbatim>\<open>Response\<close> of @angular/http, with the fields that the
  handlers compute from the transport and that a branch or a claim reads; the headers
  and the url, which are copied through, are left out. The constructor of \<^verbatim>\<open>Response\<close>
  sets \<^verbatim>\<open>ok\<close> from the 200..299 range; \<^verbatim>\<open>onLoad\<close> then overwrites it.
\<close>

record ResponseOptions =
  ro_body :: jsval
  ro_status :: nat
  ro_statusText :: string
  ro_type :: "ResponseType option"

record Response =
  body :: jsval
  status :: nat
  statusText :: string
  rtype :: "ResponseType option"
  ok :: bool

definition new_Response :: "ResponseOptions \<Rightarrow> Response" where
  "new_Response opts =
     \<lparr>body = ro_body opts, status = ro_status opts, statusText = ro_statusText opts,
      rtype = ro_type opts, ok = (200 \<le> ro_status opts \<and> ro_status opts \<le> 299)\<rparr>"

text \<open>The observer the connection reports to; each callback may throw.\<close>

record 'r Observer =
  obs_next :: "'r \<Rightarrow> jsval + unit"
  obs_error :: "'r \<Rightarrow> jsval + unit"
  obs_complete :: "jsval + unit"

subsection \<open>\<^verbatim>\<open>onLoad\<close>: status and body (lines 63-87)\<close>

text \<open>
  \<^verbatim>\<open>XSSI_PREFIX = /^\)\]\}',?\n/\<close>: the length of the match at the start of the string,
  if there is one.
\<close>

definition XSSI_PREFIX :: "string \<Rightarrow> nat option" where
  "XSSI_PREFIX s =
     (if take 6 s = [CHR '')'', CHR '']'', CHR ''}'', CHR 0x27, CHR '','', CHR 0x0A] then Some 6
      else if take 5 s = [CHR '')'', CHR '']'', CHR ''}'', CHR 0x27, CHR 0x0A] then Some 5
      else None)"

text \<open>\<^verbatim>\<open>body.replace(XSSI_PREFIX, '')\<close>\<close>

definition strip_XSSI :: "string \<Rightarrow> string" where
  "strip_XSSI s = (case XSSI_PREFIX s of None \<Rightarrow> s | Some n \<Rightarrow> drop n s)"

text \<open>
  The status and the body that \<^verbatim>\<open>onLoad\<close> hands to the response. A body whose
  \<^verbatim>\<open>typeof\<close> is \<^verbatim>\<open>'string'\<close> is a \<open>JStr\<close>, and only such a body is stripped.
\<close>

definition onLoad_status_body :: "XMLHttpRequest \<Rightarrow> nat \<times> jsval" where
  "onLoad_status_body xhr =
     (let status0 = (if xhr_status xhr = 1223 then 204 else xhr_status xhr);
          body0 =
            (if status0 \<noteq> 204
             then (let b = (if typeof (xhr_response xhr) = ''undefined''
                            then JStr (xhr_responseText xhr) else xhr_response xhr)
                   in (case b of JStr s \<Rightarrow> JStr (strip_XSSI s) | _ \<Rightarrow> b))
             else JNull);
          status1 = (if status0 = 0 then (if truthy body0 then 200 else 0) else status0)
      in (status1, body0))"

subsection \<open>\<^verbatim>\<open>onLoad\<close> and \<^verbatim>\<open>onError\<close>: the response and the notifications\<close>

text \<open>
  \<open>isSuccess\<close> is imported from \<^verbatim>\<open>./utils\<close>, which is not among the sources; it is a
  parameter. \<open>baseResponseOptions\<close> is \<open>None\<close> when undefined or null, and otherwise
  its \<^verbatim>\<open>merge\<close> method.
\<close>

definition onLoad_response ::
  "(nat \<Rightarrow> bool) \<Rightarrow> (ResponseOptions \<Rightarrow> ResponseOptions) option \<Rightarrow> XMLHttpRequest \<Rightarrow> Response" where
  "onLoad_response isSuccess baseResponseOptions xhr =
     (let (status1, body0) = onLoad_status_body xhr;
          statusText0 = (if xhr_statusText xhr = [] then ''OK'' else xhr_statusText xhr);
          responseOptions =
            \<lparr>ro_body = body0, ro_status = status1, ro_statusText = statusText0, ro_type = None\<rparr>;
          responseOptions1 =
            (case baseResponseOptions of
               None \<Rightarrow> responseOptions
             | Some merge \<Rightarrow> merge responseOptions)
      in (new_Response responseOptions1)\<lparr>ok := isSuccess status1\<rparr>)"

text \<open>
  Lines 111-123 of \<^verbatim>\<open>onLoad\<close> and lines 139-151 of \<^verbatim>\<open>onError\<close> are the same
  statements: call the observer's error callback inside try/catch, keeping what it threw
  in \<^verbatim>\<open>exception\<close> (undefined when it returned); publish POST_REQUEST_ERROR; publish
  POST_REQUEST; \<^verbatim>\<open>if (exception) throw exception\<close>.
\<close>

definition error_branch ::
  "'r calls \<Rightarrow> Events \<Rightarrow> 'r Observer \<Rightarrow> 'r \<Rightarrow> (jsval + unit) \<times> 'r step list" where
  "error_branch call ch responseObserver response =
     (let exception =
            (case obs_error responseObserver response of Inl ex \<Rightarrow> ex | Inr u \<Rightarrow> JUndefined)
      in in_sequence
           [(Inr (), [ErrorCb response]),
            fire call ch POST_REQUEST_ERROR response,
            fire call ch POST_REQUEST response,
            ((if truthy exception then Inl exception else Inr ()), [])])"

definition onLoad ::
  "(nat \<Rightarrow> bool) \<Rightarrow> Response calls \<Rightarrow> Events \<Rightarrow> (ResponseOptions \<Rightarrow> ResponseOptions) option
     \<Rightarrow> XMLHttpRequest \<Rightarrow> Response Observer \<Rightarrow> (jsval + unit) \<times> Response step list" where
  "onLoad isSuccess call ch baseResponseOptions xhr responseObserver =
     (let response = onLoad_response isSuccess baseResponseOptions xhr
      in if ok response
         then in_sequence
                [fire call ch POST_REQUEST_SUCCESS response,
                 fire call ch POST_REQUEST response,
                 (obs_next responseObserver response, [Next response]),
                 (obs_complete responseObserver, [Complete])]
         else error_branch call ch responseObserver response)"

definition onError_response ::
  "(ResponseOptions \<Rightarrow> ResponseOptions) option \<Rightarrow> XMLHttpRequest \<Rightarrow> jsval \<Rightarrow> Response" where
  "onError_response baseResponseOptions xhr err =
     (let responseOptions =
            \<lparr>ro_body = err, ro_status = xhr_status xhr, ro_statusText = xhr_statusText xhr,
             ro_type = Some Error\<rparr>;
          responseOptions1 =
            (case baseResponseOptions of
               None \<Rightarrow> responseOptions
             | Some merge \<Rightarrow> merge responseOptions)
      in new_Response responseOptions1)"

definition onError ::
  "Response calls \<Rightarrow> Events \<Rightarrow> (ResponseOptions \<Rightarrow> ResponseOptions) option
     \<Rightarrow> XMLHttpRequest \<Rightarrow> Response Observer \<Rightarrow> jsval \<Rightarrow> (jsval + unit) \<times> Response step list" where
  "onError call ch baseResponseOptions xhr responseObserver err =
     error_branch call ch responseObserver (onError_response baseResponseOptions xhr err)"

text \<open>The lifecycle publications of a run, in order.\<close>

fun fired :: "'r step list \<Rightarrow> (lifecycle \<times> 'r) list" where
  "fired [] = []"
| "fired (Fired ev r # tr) = (ev, r) # fired tr"
| "fired (s # tr) = fired tr"

text \<open>Whether a statement returned rather than threw.\<close>

fun returned :: "(jsval + 'a) \<times> 's list \<Rightarrow> bool" where
  "returned (Inl e, tr) = False"
| "returned (Inr v, tr) = True"


section \<open>The request orchestrator: \<^verbatim>\<open>Http\<close> (second part of providers/mapper/model/collection.ts)\<close>

subsection \<open>\<^verbatim>\<open>request\<close>\<close>

text \<open>
  An options object is the list of its properties. A property value is either an
  instance of the class \<^verbatim>\<open>Mapper\<close> (what \<^verbatim>\<open>mapper instanceof Mapper\<close> tests) or any
  other value. The \<^verbatim>\<open>url\<close> argument is a string or something else (a request object).
\<close>

datatype 'm propval = MapperInstance 'm | Plain jsval

type_synonym 'm options = "(string \<times> 'm propval) list"

datatype 'q url_arg = UrlString string | UrlObject 'q

text \<open>\<^verbatim>\<open>checkForResponseOptions\<close>: the loop over the three property names, with \<^verbatim>\<open>prop in obj\<close>.\<close>

fun has_any_prop :: "'m options \<Rightarrow> string list \<Rightarrow> bool" where
  "has_any_prop obj [] = False"
| "has_any_prop obj (prop # props) =
     (if map_of obj prop \<noteq> None then True else has_any_prop obj props)"

definition checkForResponseOptions :: "'m options \<Rightarrow> bool" where
  "checkForResponseOptions obj = has_any_prop obj [''mapper'', ''promise'', ''timeout'']"

text \<open>
  The request factory of @ramonornela/url-resolver, injected or absent:
  \<^verbatim>\<open>getMetadata().has(url)\<close> and \<^verbatim>\<open>create(url, params, options)\<close>.
\<close>

record ('p, 'm, 'q) RequestFactory =
  metadata_has :: "string \<Rightarrow> bool"
  create :: "string \<Rightarrow> 'p \<Rightarrow> 'm options option \<Rightarrow> jsval + 'q"

text \<open>
  Lines 62-74 of \<^verbatim>\<open>request\<close>: the response options, the url and the options that the
  transport is called with. \<open>None\<close> is an argument that is undefined or null.
\<close>

definition request_arguments ::
  "('p, 'm, 'q) RequestFactory option \<Rightarrow> 'q url_arg \<Rightarrow> 'p \<Rightarrow> 'm options option \<Rightarrow> 'm options option
     \<Rightarrow> jsval + ('m options \<times> 'q url_arg \<times> 'm options option)" where
  "request_arguments requestFactory url params options responseOptions =
     (let (responseOptions1, options1) =
            (case options of
               None \<Rightarrow> (responseOptions, options)
             | Some obj \<Rightarrow>
                 if checkForResponseOptions obj then (Some obj, None)
                 else (responseOptions, options));
          responseOptions2 = (case responseOptions1 of None \<Rightarrow> [] | Some obj \<Rightarrow> obj)
      in case (url, requestFactory) of
           (UrlString u, Some factory) \<Rightarrow>
             if metadata_has factory u
             then (case create factory u params options1 of
                     Inl e \<Rightarrow> Inl e
                   | Inr q \<Rightarrow> Inr (responseOptions2, UrlObject q, None))
             else Inr (responseOptions2, url, options1)
         | _ \<Rightarrow> Inr (responseOptions2, url, options1))"

text \<open>
  Lines 76-83. \<open>http_request\<close> is \<^verbatim>\<open>this.http.request\<close> of @angular/http and
  \<open>map_with m ob\<close> is \<^verbatim>\<open>ob.map((resp) => m.transform(resp))\<close> of rxjs, which builds a
  new observable and leaves \<open>ob\<close> as it is. The source does nothing with the observable
  that \<^verbatim>\<open>map\<close> returns; neither does the model.
\<close>

definition request ::
  "('q url_arg \<Rightarrow> 'm options option \<Rightarrow> jsval + 'o) \<Rightarrow> ('m \<Rightarrow> 'o \<Rightarrow> 'o)
     \<Rightarrow> ('p, 'm, 'q) RequestFactory option
     \<Rightarrow> 'q url_arg \<Rightarrow> 'p \<Rightarrow> 'm options option \<Rightarrow> 'm options option \<Rightarrow> jsval + 'o" where
  "request http_request map_with requestFactory url params options responseOptions =
     (case request_arguments requestFactory url params options responseOptions of
        Inl e \<Rightarrow> Inl e
      | Inr (responseOptions2, url1, options1) \<Rightarrow>
          (case http_request url1 options1 of
             Inl e \<Rightarrow> Inl e
           | Inr responseObservable \<Rightarrow>
               (let mapper = map_of responseOptions2 ''mapper'';
                    mapped =
                      (case mapper of
                         Some (MapperInstance m) \<Rightarrow> Some (map_with m responseObservable)
                       | _ \<Rightarrow> None)
                in Inr responseObservable)))"

subsection \<open>\<^verbatim>\<open>runEvent\<close>\<close>

text \<open>
  A plugin has a name and implements some of the hook methods; \<open>plugin_hooks p m\<close> is
  \<open>None\<close> when \<^verbatim>\<open>m in plugin\<close> is false. A hook returns a value or throws.
\<close>

record 'p Plugin =
  plugin_name :: string
  plugin_hooks :: "string \<rightharpoonup> ('p \<Rightarrow> jsval + jsval)"

text \<open>
  The state a dispatch works on: the flag that \<^verbatim>\<open>stop()\<close> sets, and the hook calls
  made so far, as (plugin, method, payload).
\<close>

record 'p dispatch =
  stopped :: bool
  hook_calls :: "(string \<times> string \<times> 'p) list"

text \<open>
  Modelled from the spec: \<^verbatim>\<open>this.events.stop()\<close>. The class \<^verbatim>\<open>Events\<close> of events.ts has
  no method of this name, and the module that \<^verbatim>\<open>Http\<close> imports its events class from is
  not among the sources. The spec (4.2) describes it as a transient flag, set by a hook
  that is executing, that tells the dispatch loop to skip the plugins that remain.
\<close>

definition events_stop :: "'p dispatch \<Rightarrow> 'p dispatch" where
  "events_stop s = s\<lparr>stopped := True\<rparr>"

text \<open>
  Modelled from the spec: \<^verbatim>\<open>this.plugins.forEach(fn)\<close>. The class \<^verbatim>\<open>Plugins\<close>
  (\<^verbatim>\<open>./plugins\<close>) is not among the sources. The spec (4.3, 4.2) describes it as calling
  \<^verbatim>\<open>fn(plugin)\<close> for the plugins in registration order, and the stop flag as consumed
  and reset as soon as the loop observes it, the remaining plugins being skipped.
\<close>

fun plugins_forEach ::
  "('p Plugin \<Rightarrow> 'p dispatch \<Rightarrow> (jsval + unit) \<times> 'p dispatch) \<Rightarrow> 'p Plugin list \<Rightarrow> 'p dispatch
     \<Rightarrow> (jsval + unit) \<times> 'p dispatch" where
  "plugins_forEach fn [] s = (Inr (), s)"
| "plugins_forEach fn (plugin # rest) s =
     (case fn plugin s of
        (Inl e, s1) \<Rightarrow> (Inl e, s1)
      | (Inr u, s1) \<Rightarrow>
          if stopped s1 then (Inr (), s1\<lparr>stopped := False\<rparr>)
          else plugins_forEach fn rest s1)"

text \<open>Lines 168-179: the function that \<^verbatim>\<open>runEvent\<close> passes to \<^verbatim>\<open>forEach\<close>.\<close>

definition runEvent_plugin ::
  "string \<Rightarrow> 'p \<Rightarrow> 'p Plugin \<Rightarrow> 'p dispatch \<Rightarrow> (jsval + unit) \<times> 'p dispatch" where
  "runEvent_plugin method req plugin s =
     (case plugin_hooks plugin method of
        None \<Rightarrow> (Inr (), s)
      | Some hook \<Rightarrow>
          (let s1 = s\<lparr>hook_calls := hook_calls s @ [(plugin_name plugin, method, req)]\<rparr>
           in case hook req of
                Inl e \<Rightarrow> (Inl e, s1)
              | Inr stop \<Rightarrow>
                  if stop = JBool False then (Inr (), events_stop s1) else (Inr (), s1)))"

text \<open>Lines 167-180: the handler that \<^verbatim>\<open>runEvent(subscribe, method)\<close> subscribes.\<close>

definition runEvent_handler ::
  "'p Plugin list \<Rightarrow> string \<Rightarrow> 'p \<Rightarrow> 'p dispatch \<Rightarrow> (jsval + jsval) \<times> 'p dispatch" where
  "runEvent_handler plugins method req s =
     (case plugins_forEach (runEvent_plugin method req) plugins s of
        (Inl e, s1) \<Rightarrow> (Inl e, s1)
      | (Inr u, s1) \<Rightarrow> (Inr JUndefined, s1))"

text \<open>The hook calls that reach every plugin of a list that implements the method.\<close>

definition calls_of :: "string \<Rightarrow> 'p \<Rightarrow> 'p Plugin list \<Rightarrow> (string \<times> string \<times> 'p) list" where
  "calls_of method req plugins =
     map (\<lambda>plugin. (plugin_name plugin, method, req))
       (filter (\<lambda>plugin. plugin_hooks plugin method \<noteq> None) plugins)"

text \<open>A plugin after which dispatch goes on: it has no such hook, or its hook returns a
  value other than the boolean false.\<close>

definition continues :: "string \<Rightarrow> 'p \<Rightarrow> 'p Plugin \<Rightarrow> bool" where
  "continues method req plugin =
     (case plugin_hooks plugin method of
        None \<Rightarrow> True
      | Some hook \<Rightarrow> (case hook req of Inl e \<Rightarrow> False | Inr v \<Rightarrow> v \<noteq> JBool False))"


section \<open>Example inputs\<close>

text \<open>Concrete transports, observers and handler stores, used where a property is
  evaluated at an input.\<close>

definition status_2xx :: "nat \<Rightarrow> bool" where
  "status_2xx s = (200 \<le> s \<and> s < 300)"

definition quiet_observer :: "Response Observer" where
  "quiet_observer =
     \<lparr>obs_next = (\<lambda>r. Inr ()), obs_error = (\<lambda>r. Inr ()), obs_complete = Inr ()\<rparr>"

definition failing_observer :: "Response Observer" where
  "failing_observer =
     \<lparr>obs_next = (\<lambda>r. Inr ()), obs_error = (\<lambda>r. Inl (JError ''observer failed'')),
      obs_complete = Inr ()\<rparr>"

definition xhr_200 :: XMLHttpRequest where
  "xhr_200 =
     \<lparr>xhr_status = 200, xhr_response = JStr ''hello'', xhr_responseText = ''hello'',
      xhr_statusText = ''OK''\<rparr>"

definition xhr_404 :: XMLHttpRequest where
  "xhr_404 =
     \<lparr>xhr_status = 404, xhr_response = JStr ''missing'', xhr_responseText = ''missing'',
      xhr_statusText = ''Not Found''\<rparr>"

definition response_200 :: Response where
  "response_200 =
     \<lparr>body = JStr ''hello'', status = 200, statusText = ''OK'', rtype = None, ok = True\<rparr>"

definition response_404 :: Response where
  "response_404 =
     \<lparr>body = JStr ''missing'', status = 404, statusText = ''Not Found'', rtype = None,
      ok = False\<rparr>"

definition response_network :: Response where
  "response_network =
     \<lparr>body = JStr ''network'', status = 404, statusText = ''Not Found'', rtype = Some Error,
      ok = False\<rparr>"

text \<open>A store in which handler 1 throws and every other handler returns undefined, and
  one in which every handler returns undefined.\<close>

definition handler_1_throws :: "Response calls" where
  "handler_1_throws = (\<lambda>h args. if h = 1 then Inl (JError ''hook failed'') else Inr JUndefined)"

definition all_return :: "Response calls" where
  "all_return = (\<lambda>h args. Inr JUndefined)"


text \<open>
  An engine: the members that an array inherits under ECMAScript 5.1, each a function,
  and the bus created in it.
\<close>

definition es5_members :: "string list" where
  "es5_members =
     [''constructor'', ''toString'', ''toLocaleString'', ''concat'', ''join'', ''pop'', ''push'',
      ''reverse'', ''shift'', ''slice'', ''sort'', ''splice'', ''unshift'', ''indexOf'',
      ''lastIndexOf'', ''every'', ''some'', ''forEach'', ''map'', ''filter'', ''reduce'',
      ''reduceRight'', ''valueOf'', ''hasOwnProperty'', ''isPrototypeOf'',
      ''propertyIsEnumerable'']"

definition es5_chain :: "string \<rightharpoonup> slot" where
  "es5_chain name = (if name \<in> set es5_members then Some (Other (JFun 0)) else None)"

definition es5_bus :: Events where
  "es5_bus = new_Events es5_chain"

text \<open>The bus after handler 1 subscribed to the success event, and to the error event.\<close>

definition bus_success :: Events where
  "bus_success = snd (subscribe (topic_of POST_REQUEST_SUCCESS) [1] es5_bus)"

definition bus_error :: Events where
  "bus_error = snd (subscribe (topic_of POST_REQUEST_ERROR) [1] es5_bus)"



text \<open>What the prototype chain of a plain object provides under ECMAScript 5.1 with the
  \<^verbatim>\<open>__proto__\<close> accessor: the members of \<^verbatim>\<open>Object.prototype\<close>.\<close>

definition object_members :: "string list" where
  "object_members =
     [''constructor'', ''toString'', ''toLocaleString'', ''valueOf'', ''hasOwnProperty'',
      ''isPrototypeOf'', ''propertyIsEnumerable'', ''__proto__'']"

definition plain_object :: "prototype \<Rightarrow> string \<Rightarrow> bool" where
  "plain_object p name = (p = Object_prototype \<and> name \<in> set object_members)"

text \<open>A transport with status 0 and the given response text, as for a file resource.\<close>

definition xhr_file :: "string \<Rightarrow> XMLHttpRequest" where
  "xhr_file t =
     \<lparr>xhr_status = 0, xhr_response = JUndefined, xhr_responseText = t, xhr_statusText = []\<rparr>"

text \<open>A response text that is the XSSI prefix and nothing else, and a transport with
  status 0 whose parsed response is the empty array.\<close>

definition xssi_only :: string where
  "xssi_only = [CHR '')'', CHR '']'', CHR ''}'', CHR 0x27, CHR 0x0A]"

definition xhr_empty_array :: XMLHttpRequest where
  "xhr_empty_array =
     \<lparr>xhr_status = 0, xhr_response = JArr [], xhr_responseText = [], xhr_statusText = []\<rparr>"

text \<open>
  Five plugins. For the success event: a returns undefined, b has no hook, c returns
  0, d returns false and e returns undefined.
\<close>

definition plugin_a :: "jsval Plugin" where
  "plugin_a =
     \<lparr>plugin_name = ''a'',
      plugin_hooks = [''postRequestSuccess'' \<mapsto> (\<lambda>req. Inr JUndefined),
                      ''postRequest'' \<mapsto> (\<lambda>req. Inr JUndefined)]\<rparr>"

definition plugin_b :: "jsval Plugin" where
  "plugin_b = \<lparr>plugin_name = ''b'', plugin_hooks = [''preRequest'' \<mapsto> (\<lambda>req. Inr JNull)]\<rparr>"

definition plugin_c :: "jsval Plugin" where
  "plugin_c =
     \<lparr>plugin_name = ''c'',
      plugin_hooks = [''postRequestSuccess'' \<mapsto> (\<lambda>req. Inr (JNum 0)),
                      ''postRequest'' \<mapsto> (\<lambda>req. Inr (JStr []))]\<rparr>"

definition plugin_d :: "jsval Plugin" where
  "plugin_d =
     \<lparr>plugin_name = ''d'',
      plugin_hooks = [''postRequestSuccess'' \<mapsto> (\<lambda>req. Inr (JBool False))]\<rparr>"

definition plugin_e :: "jsval Plugin" where
  "plugin_e =
     \<lparr>plugin_name = ''e'',
      plugin_hooks = [''postRequestSuccess'' \<mapsto> (\<lambda>req. Inr JUndefined),
                      ''postRequest'' \<mapsto> (\<lambda>req. Inr (JBool True))]\<rparr>"

definition idle :: "jsval dispatch" where
  "idle = \<lparr>stopped = False, hook_calls = []\<rparr>"


text \<open>
  Stand-ins for the external collaborators of the transforms: a path query that matches
  the two elements 1 and 2 under one path and nothing under any other, a model
  constructor whose instance is the pair of the class and the element, and a rule
  transform that returns the data.
\<close>

definition query_a :: "jsval \<Rightarrow> string \<Rightarrow> jsval + jsval" where
  "query_a doc p = (if p = ''$.a[*]'' then Inr (JArr [JNum 1, JNum 2]) else Inr (JArr []))"

definition tagged :: "jsval \<Rightarrow> jsval \<Rightarrow> jsval + (jsval \<times> jsval)" where
  "tagged m x = Inr (m, x)"

definition run_identity :: "model_class \<Rightarrow> jsval \<Rightarrow> string option \<Rightarrow> jsval \<Rightarrow> jsval + jsval" where
  "run_identity ty m p data = Inr data"

text \<open>A specification whose second rule names a type that nobody registered.\<close>

definition spec_bogus :: "(string \<times> MapperOptions) list" where
  "spec_bogus =
     [(''first'', \<lparr>mo_type = ''simple'', mo_model = JFun 0, mo_path = None\<rparr>),
      (''out'', \<lparr>mo_type = ''bogus'', mo_model = JFun 0, mo_path = None\<rparr>)]"

text \<open>
  A transport whose observable is the list of what it emits, here one raw response,
  and a mapper that turns every response into another value.
\<close>

definition raw_transport ::
  "unit url_arg \<Rightarrow> (jsval \<Rightarrow> jsval) options option \<Rightarrow> jsval + jsval list" where
  "raw_transport u opts = Inr [JStr ''raw'']"

definition to_mapped :: "jsval \<Rightarrow> jsval" where
  "to_mapped v = JStr ''mapped''"


section \<open>Properties of the topic bus\<close>















section \<open>Properties of the collection transform\<close>

text \<open>
  Claim C10. The constructor of \<open>ModelCollection\<close> returns an instance for every model
  argument and every path: its check asks for a value whose \<^verbatim>\<open>typeof\<close> is not
  \<^verbatim>\<open>'object'\<close> and which is null, and \<^verbatim>\<open>typeof null\<close> is \<^verbatim>\<open>'object'\<close>, so the branch
  that raises \<^verbatim>\<open>Data type model invalid\<close> is never taken.
\<close>

theorem ModelCollection_new_never_raises:
  "ModelCollection_new m p = Inr \<lparr>model = m, path = p\<rparr>"
  by (cases m) (simp_all add: ModelCollection_new_def)


lemma construct_each_returns:
  "\<forall>x\<in>set xs. construct m x = Inr (inst x) \<Longrightarrow>
   construct_each construct m xs models = Inr (models @ map inst xs)"
  by (induction xs arbitrary: models) simp_all

text \<open>
  Claim C4. Let \<open>v\<close> be the value that \<^verbatim>\<open>transform\<close> extracted (the parsed body, or the
  result of the path query when a path is set). If \<open>v\<close> is not an array, \<^verbatim>\<open>transform\<close>
  throws the error \<^verbatim>\<open>Returns should be Array\<close>. If \<open>v\<close> is an array and the model
  constructor returns an instance for each element, \<^verbatim>\<open>transform\<close> returns these
  instances, one for each element and in the order of the elements. When the path query
  matches nothing, that is returns the empty array, \<^verbatim>\<open>transform\<close> returns the empty
  array and does not throw.
\<close>

theorem collection_transform:
  "(extracted json query this data = Inr v \<longrightarrow> \<not> isArray v \<longrightarrow>
      ModelCollection_transform json query construct this data
        = Inl (JError ''Returns should be Array''))
   \<and> (extracted json query this data = Inr (JArr elems) \<longrightarrow>
        (\<forall>x\<in>set elems. construct (model this) x = Inr (inst x)) \<longrightarrow>
      ModelCollection_transform json query construct this data = Inr (map inst elems))
   \<and> (json data = Inr doc \<longrightarrow> path this = Some p \<longrightarrow> p \<noteq> [] \<longrightarrow> query doc p = Inr (JArr []) \<longrightarrow>
      ModelCollection_transform json query construct this data = Inr [])"
proof (intro conjI impI)
  assume "extracted json query this data = Inr v" and "\<not> isArray v"
  then show "ModelCollection_transform json query construct this data
      = Inl (JError ''Returns should be Array'')"
    by (simp add: ModelCollection_transform_def)
next
  assume "extracted json query this data = Inr (JArr elems)"
    and "\<forall>x\<in>set elems. construct (model this) x = Inr (inst x)"
  then show "ModelCollection_transform json query construct this data = Inr (map inst elems)"
    using construct_each_returns [of elems construct "model this" inst "[]"]
    by (simp add: ModelCollection_transform_def)
next
  assume "json data = Inr doc" and "path this = Some p" and "p \<noteq> []"
    and "query doc p = Inr (JArr [])"
  then show "ModelCollection_transform json query construct this data = Inr []"
    by (simp add: ModelCollection_transform_def extracted_def)
qed

theorem collection_transform_witness:
  "ModelCollection_transform Inr query_a tagged \<lparr>model = JFun 0, path = Some ''$.a[*]''\<rparr> (JObj [])
     = Inr [(JFun 0, JNum 1), (JFun 0, JNum 2)]
   \<and> ModelCollection_transform Inr query_a tagged \<lparr>model = JFun 0, path = Some ''$.missing''\<rparr> (JObj [])
     = Inr []
   \<and> ModelCollection_transform Inr query_a tagged \<lparr>model = JFun 0, path = None\<rparr> (JObj [])
     = Inl (JError ''Returns should be Array'')"
  using collection_transform
      [where json = Inr and query = query_a and construct = tagged and data = "JObj []"
         and this = "\<lparr>model = JFun 0, path = Some ''$.a[*]''\<rparr>" and elems = "[JNum 1, JNum 2]"
         and inst = "\<lambda>x. (JFun 0, x)"]
    collection_transform
      [where json = Inr and query = query_a and construct = tagged and data = "JObj []"
         and this = "\<lparr>model = JFun 0, path = Some ''$.missing''\<rparr>" and doc = "JObj []"
         and p = "''$.missing''"]
    collection_transform
      [where json = Inr and query = query_a and construct = tagged and data = "JObj []"
         and this = "\<lparr>model = JFun 0, path = None\<rparr>" and v = "JObj []"]
  by (simp add: query_a_def tagged_def extracted_def)


section \<open>Properties of the XHR connection\<close>

lemma fire_cases:
  obtains (throws) e where "fire call ch ev r = (Inl e, [Fired ev r])"
  | (returns) "fire call ch ev r = (Inr (), [Fired ev r])"
  by (cases "fst (publish (\<lambda>h args this. (call h args, this)) ch (topic_of ev) [r])")
     (simp_all add: fire_def)

lemma fired_error_branch:
  "fired (snd (error_branch call ch obs r)) =
     (if returned (fire call ch POST_REQUEST_ERROR r)
      then [(POST_REQUEST_ERROR, r), (POST_REQUEST, r)] else [(POST_REQUEST_ERROR, r)])"
  by (cases rule: fire_cases [of call ch POST_REQUEST_ERROR r];
      cases rule: fire_cases [of call ch POST_REQUEST r])
     (simp_all add: error_branch_def Let_def)

lemma fired_success_branch:
  "fired (snd (in_sequence
       [fire call ch POST_REQUEST_SUCCESS r, fire call ch POST_REQUEST r,
        (obs_next obs r, [Next r]), (obs_complete obs, [Complete])])) =
     (if returned (fire call ch POST_REQUEST_SUCCESS r)
      then [(POST_REQUEST_SUCCESS, r), (POST_REQUEST, r)] else [(POST_REQUEST_SUCCESS, r)])"
  by (cases rule: fire_cases [of call ch POST_REQUEST_SUCCESS r];
      cases rule: fire_cases [of call ch POST_REQUEST r];
      cases "obs_next obs r"; cases "obs_complete obs")
     simp_all

lemma ok_onLoad_response:
  "ok (onLoad_response isSuccess base xhr) = isSuccess (fst (onLoad_status_body xhr))"
  by (simp add: onLoad_response_def Let_def split: prod.splits)

lemma fire_on_bus_success:
  "fire call bus_success POST_REQUEST_SUCCESS r
     = ((case call 1 [r] of Inl e \<Rightarrow> Inl e | Inr v \<Rightarrow> Inr ()), [Fired POST_REQUEST_SUCCESS r])"
  "fire call bus_success POST_REQUEST r = (Inr (), [Fired POST_REQUEST r])"
  "fire call bus_success POST_REQUEST_ERROR r = (Inr (), [Fired POST_REQUEST_ERROR r])"
  by (cases "call 1 [r]";
      simp add: fire_def publish_def bus_success_def subscribe_def channels_get_def
        channels_set_empty_def array_index_def es5_bus_def new_Events_def es5_chain_def
        es5_members_def)+

lemma fire_on_bus_error:
  "fire call bus_error POST_REQUEST_ERROR r
     = ((case call 1 [r] of Inl e \<Rightarrow> Inl e | Inr v \<Rightarrow> Inr ()), [Fired POST_REQUEST_ERROR r])"
  "fire call bus_error POST_REQUEST r = (Inr (), [Fired POST_REQUEST r])"
  by (cases "call 1 [r]";
      simp add: fire_def publish_def bus_error_def subscribe_def channels_get_def
        channels_set_empty_def array_index_def es5_bus_def new_Events_def es5_chain_def
        es5_members_def)+

text \<open>
  Claim C1, as stated, fails: a load with status 200 and a handler subscribed to
  POST_REQUEST_SUCCESS that throws. The exception leaves \<^verbatim>\<open>onLoad\<close> at line 102, and
  POST_REQUEST is published zero times.
\<close>

theorem post_request_skipped_counterexample:
  "onLoad status_2xx handler_1_throws
     bus_success None xhr_200 quiet_observer
     = (Inl (JError ''hook failed''), [Fired POST_REQUEST_SUCCESS response_200])
   \<and> count_list
        (map fst (fired (snd (onLoad status_2xx handler_1_throws
           bus_success None xhr_200 quiet_observer))))
        POST_REQUEST = 0"
  by (simp add: status_2xx_def handler_1_throws_def xhr_200_def quiet_observer_def
      response_200_def onLoad_def onLoad_response_def onLoad_status_body_def new_Response_def
      fire_on_bus_success strip_XSSI_def XSSI_PREFIX_def Let_def)

lemma error_branch_throws:
  "fst (fire call ch POST_REQUEST_ERROR r) = Inl e \<Longrightarrow>
   error_branch call ch obs r = (Inl e, [ErrorCb r, Fired POST_REQUEST_ERROR r])"
  by (cases rule: fire_cases [of call ch POST_REQUEST_ERROR r])
     (simp_all add: error_branch_def Let_def)

lemma success_branch_throws:
  "fst (fire call ch POST_REQUEST_SUCCESS r) = Inl e \<Longrightarrow>
   in_sequence
       [fire call ch POST_REQUEST_SUCCESS r, fire call ch POST_REQUEST r,
        (obs_next obs r, [Next r]), (obs_complete obs, [Complete])]
     = (Inl e, [Fired POST_REQUEST_SUCCESS r])"
  by (cases rule: fire_cases [of call ch POST_REQUEST_SUCCESS r]) simp_all

text \<open>
  Claim C1, amended. For every request that the transport completes, by a load or by an
  error event, the outcome-specific event (POST_REQUEST_SUCCESS when the normalized
  status is classified a success, POST_REQUEST_ERROR otherwise and on a transport error)
  is published first and exactly once, with the response. When publishing it returns,
  that is when no handler subscribed to it throws, POST_REQUEST is published exactly
  once, right after it and with the same response. When a handler of the
  outcome-specific event throws \<open>e\<close>, the completion handler itself ends by throwing
  \<open>e\<close>, right after that publication, and POST_REQUEST is not published.
\<close>

theorem post_request_once_after_outcome:
  "(let r = onLoad_response isSuccess base xhr;
        ev = (if isSuccess (fst (onLoad_status_body xhr))
              then POST_REQUEST_SUCCESS else POST_REQUEST_ERROR);
        run = onLoad isSuccess call ch base xhr obs
    in fired (snd run)
         = (if returned (fire call ch ev r) then [(ev, r), (POST_REQUEST, r)] else [(ev, r)])
       \<and> (fst (fire call ch ev r) = Inl e \<longrightarrow>
            fst run = Inl e \<and> fired (snd run) = [(ev, r)] \<and> last (snd run) = Fired ev r))
   \<and> (let r = onError_response base xhr' err;
          run = onError call ch base xhr' obs err
      in fired (snd run)
           = (if returned (fire call ch POST_REQUEST_ERROR r)
              then [(POST_REQUEST_ERROR, r), (POST_REQUEST, r)] else [(POST_REQUEST_ERROR, r)])
         \<and> (fst (fire call ch POST_REQUEST_ERROR r) = Inl e' \<longrightarrow>
              fst run = Inl e' \<and> fired (snd run) = [(POST_REQUEST_ERROR, r)]
              \<and> last (snd run) = Fired POST_REQUEST_ERROR r))"
proof -
  have not_returned: "\<not> returned (fire call ch ev r)" if "fst (fire call ch ev r) = Inl x"
    for ev r x
    using that by (cases rule: fire_cases [of call ch ev r]) simp_all
  show ?thesis
    by (auto simp add: onLoad_def onError_def Let_def ok_onLoad_response fired_error_branch
        fired_success_branch error_branch_throws success_branch_throws not_returned)
qed

theorem post_request_once_after_outcome_witness:
  "fired (snd (onLoad status_2xx all_return bus_success None xhr_200 quiet_observer))
     = [(POST_REQUEST_SUCCESS, response_200), (POST_REQUEST, response_200)]
   \<and> fired (snd (onError all_return bus_success None xhr_404 quiet_observer (JStr ''network'')))
     = [(POST_REQUEST_ERROR, response_network), (POST_REQUEST, response_network)]
   \<and> fst (onLoad status_2xx handler_1_throws bus_success None xhr_200 quiet_observer)
     = Inl (JError ''hook failed'')
   \<and> fst (onError handler_1_throws bus_error None xhr_404 quiet_observer (JStr ''network''))
     = Inl (JError ''hook failed'')"
  using post_request_once_after_outcome
    [where isSuccess = status_2xx and call = all_return and ch = bus_success and base = None
       and xhr = xhr_200 and obs = quiet_observer and xhr' = xhr_404
       and err = "JStr ''network''"]
    post_request_once_after_outcome
    [where isSuccess = status_2xx and call = handler_1_throws and ch = bus_success
       and base = None and xhr = xhr_200 and obs = quiet_observer
       and e = "JError ''hook failed''"]
    post_request_once_after_outcome
    [where call = handler_1_throws and ch = bus_error and base = None
       and obs = quiet_observer and xhr' = xhr_404 and err = "JStr ''network''"
       and e' = "JError ''hook failed''"]
  by (simp add: status_2xx_def all_return_def handler_1_throws_def xhr_200_def xhr_404_def
      quiet_observer_def response_200_def response_network_def onLoad_response_def
      onError_response_def onLoad_status_body_def new_Response_def fire_on_bus_success
      fire_on_bus_error strip_XSSI_def XSSI_PREFIX_def Let_def)

lemma error_branch_rethrows:
  assumes "obs_error obs r = Inl e"
  shows "take 2 (snd (error_branch call ch obs r)) = [ErrorCb r, Fired POST_REQUEST_ERROR r]"
    and "returned (fire call ch POST_REQUEST_ERROR r) \<Longrightarrow>
         take 3 (snd (error_branch call ch obs r))
           = [ErrorCb r, Fired POST_REQUEST_ERROR r, Fired POST_REQUEST r]"
    and "returned (fire call ch POST_REQUEST_ERROR r) \<Longrightarrow>
         returned (fire call ch POST_REQUEST r) \<Longrightarrow> truthy e \<Longrightarrow>
         error_branch call ch obs r
           = (Inl e, [ErrorCb r, Fired POST_REQUEST_ERROR r, Fired POST_REQUEST r])"
  using assms
  by (cases rule: fire_cases [of call ch POST_REQUEST_ERROR r];
      cases rule: fire_cases [of call ch POST_REQUEST r];
      simp add: error_branch_def Let_def)+

text \<open>
  Claim C2, as stated, fails: a load with status 404, an observer whose error callback
  throws, and a handler subscribed to POST_REQUEST_ERROR that throws as well. The
  handler's exception leaves \<^verbatim>\<open>onLoad\<close> at line 118: POST_REQUEST is not published and
  the exception of the callback is not the one that is raised.
\<close>

theorem error_callback_exception_counterexample:
  "onLoad status_2xx handler_1_throws
     bus_error None xhr_404 failing_observer
     = (Inl (JError ''hook failed''), [ErrorCb response_404, Fired POST_REQUEST_ERROR response_404])"
  by (simp add: status_2xx_def handler_1_throws_def xhr_404_def failing_observer_def
      response_404_def onLoad_def onLoad_response_def onLoad_status_body_def new_Response_def
      error_branch_def fire_on_bus_error strip_XSSI_def XSSI_PREFIX_def Let_def)

text \<open>
  Claim C2, amended. In the error branch (a load whose normalized status is not
  classified a success, or a transport error), if the error callback of the response
  observer throws \<open>e\<close>, then POST_REQUEST_ERROR is still published, right after the
  callback; if publishing it returns, POST_REQUEST is published next; and if publishing
  both returns and \<open>e\<close> is a truthy value, the handler ends by throwing \<open>e\<close>, after the
  two publications and nothing else.
\<close>

theorem error_callback_exception_after_events:
  "(let r = onLoad_response isSuccess base xhr; run = onLoad isSuccess call ch base xhr obs
    in \<not> isSuccess (fst (onLoad_status_body xhr)) \<longrightarrow> obs_error obs r = Inl e \<longrightarrow>
         take 2 (snd run) = [ErrorCb r, Fired POST_REQUEST_ERROR r]
         \<and> (returned (fire call ch POST_REQUEST_ERROR r) \<longrightarrow>
              take 3 (snd run) = [ErrorCb r, Fired POST_REQUEST_ERROR r, Fired POST_REQUEST r])
         \<and> (returned (fire call ch POST_REQUEST_ERROR r) \<longrightarrow>
              returned (fire call ch POST_REQUEST r) \<longrightarrow> truthy e \<longrightarrow>
              run = (Inl e, [ErrorCb r, Fired POST_REQUEST_ERROR r, Fired POST_REQUEST r])))
   \<and> (let r = onError_response base xhr' err; run = onError call ch base xhr' obs err
      in obs_error obs r = Inl e' \<longrightarrow>
         take 2 (snd run) = [ErrorCb r, Fired POST_REQUEST_ERROR r]
         \<and> (returned (fire call ch POST_REQUEST_ERROR r) \<longrightarrow>
              take 3 (snd run) = [ErrorCb r, Fired POST_REQUEST_ERROR r, Fired POST_REQUEST r])
         \<and> (returned (fire call ch POST_REQUEST_ERROR r) \<longrightarrow>
              returned (fire call ch POST_REQUEST r) \<longrightarrow> truthy e' \<longrightarrow>
              run = (Inl e', [ErrorCb r, Fired POST_REQUEST_ERROR r, Fired POST_REQUEST r])))"
  by (simp add: Let_def onLoad_def onError_def ok_onLoad_response error_branch_rethrows)

theorem error_callback_exception_after_events_witness:
  "onLoad status_2xx all_return
     bus_error None xhr_404 failing_observer
     = (Inl (JError ''observer failed''),
        [ErrorCb response_404, Fired POST_REQUEST_ERROR response_404,
         Fired POST_REQUEST response_404])
   \<and> onError all_return
     bus_error None xhr_404 failing_observer
     (JStr ''network'')
     = (Inl (JError ''observer failed''),
        [ErrorCb response_network, Fired POST_REQUEST_ERROR response_network,
         Fired POST_REQUEST response_network])"
  using error_callback_exception_after_events
    [of status_2xx None xhr_404 all_return bus_error
        failing_observer "JError ''observer failed''" xhr_404 "JStr ''network''"
        "JError ''observer failed''"]
  by (simp add: status_2xx_def all_return_def xhr_404_def failing_observer_def
      response_404_def response_network_def onLoad_def onError_def onLoad_response_def
      onError_response_def onLoad_status_body_def new_Response_def error_branch_def
      fire_on_bus_error strip_XSSI_def XSSI_PREFIX_def Let_def)

lemma onLoad_response_1223:
  "onLoad_response isSuccess base (xhr\<lparr>xhr_status := 1223\<rparr>)
     = onLoad_response isSuccess base (xhr\<lparr>xhr_status := 204\<rparr>)"
  by (simp add: onLoad_response_def onLoad_status_body_def)

lemma strip_XSSI_empty:
  "(strip_XSSI t = []) = (t = [] \<or> XSSI_PREFIX t = Some (length t))"
proof (cases "XSSI_PREFIX t")
  case None
  then show ?thesis by (simp add: strip_XSSI_def)
next
  case (Some n)
  then have "n \<le> length t" and "0 < n"
    by (auto simp add: XSSI_PREFIX_def split: if_splits
        dest: arg_cong [where f = length])
  with Some show ?thesis
    by (auto simp add: strip_XSSI_def)
qed

text \<open>
  Claim C6, as stated, fails for status 0. A response text that consists of the XSSI
  prefix only is a body that is not empty, yet the status stays 0, because the prefix is
  stripped before the test; and a body that is the empty array is empty, yet the
  status becomes 200, because the test is for a truthy value.
\<close>

theorem status_zero_counterexample:
  "length xssi_only = 5
   \<and> onLoad_status_body (xhr_file xssi_only) = (0, JStr [])
   \<and> onLoad_status_body xhr_empty_array = (200, JArr [])"
  by (simp add: xssi_only_def xhr_file_def xhr_empty_array_def onLoad_status_body_def
      strip_XSSI_def XSSI_PREFIX_def Let_def)

text \<open>
  Claim C6, amended. \<^verbatim>\<open>onLoad\<close> normalizes the status before it classifies it: the
  flag \<^verbatim>\<open>ok\<close> is the success predicate applied to the normalized status. A transport
  status 1223 gives the same status, body and whole run of \<^verbatim>\<open>onLoad\<close> as a status
  204. For a status 204 the body is null. For a status 0 the body is the response of
  the transport (its response text where the transport has no response property), with
  a leading XSSI prefix removed when it is a string, and the status becomes 200 exactly
  when that body is truthy: for a text, when something remains after the prefix (the
  text is neither empty nor the prefix alone); for any other value, when the value is
  truthy, as every array and object is. Otherwise the status stays 0.
\<close>

theorem status_normalization:
  "onLoad_status_body (xhr\<lparr>xhr_status := 1223\<rparr>) = onLoad_status_body (xhr\<lparr>xhr_status := 204\<rparr>)
   \<and> onLoad isSuccess call ch base (xhr\<lparr>xhr_status := 1223\<rparr>) obs
       = onLoad isSuccess call ch base (xhr\<lparr>xhr_status := 204\<rparr>) obs
   \<and> (xhr_status xhr = 204 \<longrightarrow> onLoad_status_body xhr = (204, JNull))
   \<and> (xhr_status xhr = 0 \<longrightarrow> xhr_response xhr = JUndefined \<longrightarrow>
        onLoad_status_body xhr
          = (if strip_XSSI (xhr_responseText xhr) = [] then 0 else 200,
             JStr (strip_XSSI (xhr_responseText xhr))))
   \<and> (xhr_status xhr = 0 \<longrightarrow> xhr_response xhr = JStr t \<longrightarrow>
        onLoad_status_body xhr = (if strip_XSSI t = [] then 0 else 200, JStr (strip_XSSI t)))
   \<and> (xhr_status xhr = 0 \<longrightarrow> typeof (xhr_response xhr) \<noteq> ''undefined'' \<longrightarrow>
        typeof (xhr_response xhr) \<noteq> ''string'' \<longrightarrow>
        onLoad_status_body xhr
          = (if truthy (xhr_response xhr) then 200 else 0, xhr_response xhr))
   \<and> (strip_XSSI u = []) = (u = [] \<or> XSSI_PREFIX u = Some (length u))
   \<and> ok (onLoad_response isSuccess base xhr) = isSuccess (fst (onLoad_status_body xhr))"
proof (intro conjI impI)
  show "onLoad_status_body (xhr\<lparr>xhr_status := 1223\<rparr>) = onLoad_status_body (xhr\<lparr>xhr_status := 204\<rparr>)"
    by (simp add: onLoad_status_body_def)
  show "onLoad isSuccess call ch base (xhr\<lparr>xhr_status := 1223\<rparr>) obs
          = onLoad isSuccess call ch base (xhr\<lparr>xhr_status := 204\<rparr>) obs"
    by (simp add: onLoad_def onLoad_response_1223)
  show "onLoad_status_body xhr = (204, JNull)" if "xhr_status xhr = 204"
    using that by (simp add: onLoad_status_body_def)
  show "onLoad_status_body xhr
          = (if strip_XSSI (xhr_responseText xhr) = [] then 0 else 200,
             JStr (strip_XSSI (xhr_responseText xhr)))"
    if "xhr_status xhr = 0" and "xhr_response xhr = JUndefined"
    using that by (simp add: onLoad_status_body_def Let_def)
  show "onLoad_status_body xhr = (if strip_XSSI t = [] then 0 else 200, JStr (strip_XSSI t))"
    if "xhr_status xhr = 0" and "xhr_response xhr = JStr t"
    using that by (simp add: onLoad_status_body_def Let_def)
  show "onLoad_status_body xhr = (if truthy (xhr_response xhr) then 200 else 0, xhr_response xhr)"
    if "xhr_status xhr = 0" and "typeof (xhr_response xhr) \<noteq> ''undefined''"
      and "typeof (xhr_response xhr) \<noteq> ''string''"
    using that by (cases "xhr_response xhr") (simp_all add: onLoad_status_body_def Let_def)
  show "(strip_XSSI u = []) = (u = [] \<or> XSSI_PREFIX u = Some (length u))"
    by (rule strip_XSSI_empty)
  show "ok (onLoad_response isSuccess base xhr) = isSuccess (fst (onLoad_status_body xhr))"
    by (rule ok_onLoad_response)
qed

theorem status_normalization_witness:
  "onLoad_status_body (xhr_file ''data'') = (200, JStr ''data'')
   \<and> onLoad_status_body (xhr_file []) = (0, JStr [])
   \<and> onLoad_status_body (xhr_file xssi_only) = (0, JStr [])
   \<and> onLoad_status_body xhr_empty_array = (200, JArr [])
   \<and> onLoad_status_body (xhr_200\<lparr>xhr_status := 0\<rparr>) = (200, JStr ''hello'')
   \<and> onLoad_status_body (xhr_200\<lparr>xhr_status := 204\<rparr>) = (204, JNull)
   \<and> onLoad_status_body (xhr_200\<lparr>xhr_status := 1223\<rparr>) = (204, JNull)"
  using status_normalization [where xhr = "xhr_file ''data''"]
    status_normalization [where xhr = "xhr_file []"]
    status_normalization [where xhr = "xhr_file xssi_only" and u = xssi_only]
    status_normalization [where xhr = xhr_empty_array]
    status_normalization [where xhr = "xhr_200\<lparr>xhr_status := 0\<rparr>" and t = "''hello''"]
    status_normalization [where xhr = "xhr_200\<lparr>xhr_status := 204\<rparr>"]
    status_normalization [where xhr = xhr_200]
  by (simp add: xhr_file_def xhr_200_def xhr_empty_array_def xssi_only_def strip_XSSI_def
      XSSI_PREFIX_def)


section \<open>Properties of the request orchestrator\<close>

lemma runEvent_plugin_continues:
  "continues method req plugin \<Longrightarrow> \<not> stopped s \<Longrightarrow>
   runEvent_plugin method req plugin s =
     (Inr (), s\<lparr>hook_calls := hook_calls s @ calls_of method req [plugin]\<rparr>)"
  by (auto simp: continues_def runEvent_plugin_def calls_of_def Let_def
      split: option.splits sum.splits)

lemma forEach_continues:
  "\<forall>q\<in>set plugins. continues method req q \<Longrightarrow> \<not> stopped s \<Longrightarrow>
   plugins_forEach (runEvent_plugin method req) plugins s =
     (Inr (), s\<lparr>hook_calls := hook_calls s @ calls_of method req plugins\<rparr>)"
proof (induction plugins arbitrary: s)
  case Nil
  then show ?case by (simp add: calls_of_def)
next
  case (Cons a plugins)
  let ?s1 = "s\<lparr>hook_calls := hook_calls s @ calls_of method req [a]\<rparr>"
  have step: "runEvent_plugin method req a s = (Inr (), ?s1)"
    using Cons.prems by (simp add: runEvent_plugin_continues)
  have "plugins_forEach (runEvent_plugin method req) plugins ?s1 =
     (Inr (), ?s1\<lparr>hook_calls := hook_calls ?s1 @ calls_of method req plugins\<rparr>)"
    using Cons.prems by (intro Cons.IH) simp_all
  with step Cons.prems show ?case
    by (simp add: calls_of_def)
qed

lemma forEach_stops:
  assumes "\<forall>q\<in>set before. continues method req q" and "\<not> stopped s"
    and "plugin_hooks p method = Some hook" and "hook req = Inr (JBool False)"
  shows "plugins_forEach (runEvent_plugin method req) (before @ p # rest) s =
     (Inr (), s\<lparr>hook_calls := hook_calls s @ calls_of method req (before @ [p])\<rparr>)"
  using assms(1,2)
proof (induction before arbitrary: s)
  case Nil
  then show ?case using assms(3,4)
    by (simp add: runEvent_plugin_def calls_of_def events_stop_def)
next
  case (Cons a before)
  let ?s1 = "s\<lparr>hook_calls := hook_calls s @ calls_of method req [a]\<rparr>"
  have step: "runEvent_plugin method req a s = (Inr (), ?s1)"
    using Cons.prems by (simp add: runEvent_plugin_continues)
  have "plugins_forEach (runEvent_plugin method req) (before @ p # rest) ?s1 =
     (Inr (), ?s1\<lparr>hook_calls := hook_calls ?s1 @ calls_of method req (before @ [p])\<rparr>)"
    using Cons.prems by (intro Cons.IH) simp_all
  with step Cons.prems show ?case
    by (simp add: calls_of_def)
qed

text \<open>
  Claim C3. Take one firing of a lifecycle event, that is one run of the handler that
  \<^verbatim>\<open>runEvent\<close> subscribed, started with the stop flag clear. If the hook of plugin \<open>p\<close>
  returns the boolean false, and every plugin before \<open>p\<close> either has no such hook or has
  one that returned some other value, then the hooks called are those of the plugins up
  to and including \<open>p\<close>, in registration order: no plugin after \<open>p\<close> is called for this
  firing. The stop flag is clear again when the handler returns, so a firing that
  follows, of any event, calls the hook of every plugin that has one (as long as none of
  them returns false in turn). If no hook returns false, whatever else the hooks return
  (undefined, null, 0, the empty string, true, ...), every plugin that has the hook is
  called, in registration order.
\<close>

theorem hook_false_stops_dispatch:
  "(\<not> stopped s \<longrightarrow> (\<forall>q\<in>set before. continues meth req q) \<longrightarrow>
      plugin_hooks p meth = Some hook \<longrightarrow> hook req = Inr (JBool False) \<longrightarrow>
      runEvent_handler (before @ p # rest) meth req s =
        (Inr JUndefined, s\<lparr>hook_calls := hook_calls s @ calls_of meth req (before @ [p])\<rparr>)
      \<and> ((\<forall>q\<in>set plugins'. continues meth' req' q) \<longrightarrow>
          snd (runEvent_handler plugins' meth' req'
                 (snd (runEvent_handler (before @ p # rest) meth req s))) =
            s\<lparr>hook_calls := hook_calls s @ calls_of meth req (before @ [p])
                               @ calls_of meth' req' plugins'\<rparr>))
   \<and> (\<not> stopped s \<longrightarrow> (\<forall>q\<in>set plugins. continues meth req q) \<longrightarrow>
      runEvent_handler plugins meth req s =
        (Inr JUndefined, s\<lparr>hook_calls := hook_calls s @ calls_of meth req plugins\<rparr>))"
  by (simp add: runEvent_handler_def forEach_stops forEach_continues)

theorem hook_false_stops_dispatch_witness:
  "runEvent_handler [plugin_a, plugin_b, plugin_c, plugin_d, plugin_e]
     ''postRequestSuccess'' (JStr ''r'') idle
     = (Inr JUndefined,
        \<lparr>stopped = False,
         hook_calls = [(''a'', ''postRequestSuccess'', JStr ''r''),
                       (''c'', ''postRequestSuccess'', JStr ''r''),
                       (''d'', ''postRequestSuccess'', JStr ''r'')]\<rparr>)
   \<and> snd (runEvent_handler [plugin_a, plugin_b, plugin_c, plugin_d, plugin_e]
            ''postRequest'' (JStr ''r'')
            (snd (runEvent_handler [plugin_a, plugin_b, plugin_c, plugin_d, plugin_e]
                    ''postRequestSuccess'' (JStr ''r'') idle)))
     = \<lparr>stopped = False,
        hook_calls = [(''a'', ''postRequestSuccess'', JStr ''r''),
                      (''c'', ''postRequestSuccess'', JStr ''r''),
                      (''d'', ''postRequestSuccess'', JStr ''r''),
                      (''a'', ''postRequest'', JStr ''r''),
                      (''c'', ''postRequest'', JStr ''r''),
                      (''e'', ''postRequest'', JStr ''r'')]\<rparr>
   \<and> runEvent_handler [plugin_a, plugin_b, plugin_c, plugin_e]
       ''postRequestSuccess'' (JStr ''r'') idle
     = (Inr JUndefined,
        \<lparr>stopped = False,
         hook_calls = [(''a'', ''postRequestSuccess'', JStr ''r''),
                       (''c'', ''postRequestSuccess'', JStr ''r''),
                       (''e'', ''postRequestSuccess'', JStr ''r'')]\<rparr>)"
  using hook_false_stops_dispatch
    [where s = idle and before = "[plugin_a, plugin_b, plugin_c]" and p = plugin_d
       and rest = "[plugin_e]" and meth = "''postRequestSuccess''" and req = "JStr ''r''"
       and hook = "\<lambda>req. Inr (JBool False)"
       and plugins' = "[plugin_a, plugin_b, plugin_c, plugin_d, plugin_e]"
       and meth' = "''postRequest''" and req' = "JStr ''r''"
       and plugins = "[plugin_a, plugin_b, plugin_c, plugin_e]"]
  by (simp add: plugin_a_def plugin_b_def plugin_c_def plugin_d_def plugin_e_def idle_def
      continues_def calls_of_def runEvent_handler_def runEvent_plugin_def events_stop_def)

text \<open>
  Claim C9. Whenever the response options that \<^verbatim>\<open>request\<close> ends up with hold a
  \<^verbatim>\<open>Mapper\<close> instance under \<^verbatim>\<open>mapper\<close>, the result of \<^verbatim>\<open>request\<close> is the result of the
  transport's \<^verbatim>\<open>request\<close> itself: the very observable the transport returned (or the
  exception it threw), not the observable that \<^verbatim>\<open>map\<close> built from it.
\<close>

theorem request_returns_transport_observable:
  "request_arguments requestFactory url params options responseOptions
     = Inr (effective, target, passed) \<Longrightarrow>
   map_of effective ''mapper'' = Some (MapperInstance m) \<Longrightarrow>
   request http_request map_with requestFactory url params options responseOptions
     = http_request target passed"
  by (simp add: request_def split: sum.splits)

theorem request_returns_transport_observable_witness:
  "request raw_transport map None (UrlString ''/users'') ()
     (Some [(''mapper'', MapperInstance to_mapped)]) None
     = Inr [JStr ''raw'']
   \<and> map to_mapped [JStr ''raw''] = [JStr ''mapped'']"
  using request_returns_transport_observable
    [where requestFactory = None and url = "UrlString ''/users''" and params = "()"
       and options = "Some [(''mapper'', MapperInstance to_mapped)]" and responseOptions = None
       and effective = "[(''mapper'', MapperInstance to_mapped)]"
       and target = "UrlString ''/users''" and passed = None and m = to_mapped
       and http_request = raw_transport and map_with = map]
  by (simp add: request_arguments_def checkForResponseOptions_def raw_transport_def
      to_mapped_def)


section \<open>Properties of the multiple transform\<close>

lemma transform_keys_unregistered:
  "\<forall>(k, opt')\<in>set before. rule_maps run lookup data opt' \<Longrightarrow> lookup (mo_type opt) = None \<Longrightarrow>
   transform_keys run lookup data (before @ (key, opt) # rest) results =
     Inl (JError (''Type '' @ mo_type opt @ '' not exits''))"
proof (induction before arbitrary: results)
  case Nil
  then show ?case by simp
next
  case (Cons a before)
  obtain k o' where a: "a = (k, o')" by (cases a)
  from Cons.prems have "rule_maps run lookup data o'" by (simp add: a)
  then obtain ty r where "lookup (mo_type o') = Some ty" and "class_truthy ty"
    and "run ty (mo_model o') (mo_path o') data = Inr r"
    by (auto simp: rule_maps_def split: option.splits sum.splits)
  with Cons show ?case by (simp add: a)
qed

text \<open>
  Claim C5, as stated, fails: a specification whose rule \<^verbatim>\<open>out\<close> names the type
  \<^verbatim>\<open>bogus\<close>. The constructor returns the mapper; the configuration error is raised when
  that mapper transforms a response.
\<close>

theorem unregistered_type_counterexample:
  "ModelMultiple_new spec_bogus
     = Inr \<lparr>mapper = spec_bogus,
            types = [''simple'' \<mapsto> ModelSimple_class, ''collection'' \<mapsto> ModelCollection_class],
            types_prototype = Object_prototype\<rparr>
   \<and> ModelMultiple_transform plain_object run_identity
        \<lparr>mapper = spec_bogus,
         types = [''simple'' \<mapsto> ModelSimple_class, ''collection'' \<mapsto> ModelCollection_class],
         types_prototype = Object_prototype\<rparr>
        JNull
     = Inl (JError ''Type bogus not exits'')"
  by (simp add: ModelMultiple_new_def addType_def TypeModel_Simple_def TypeModel_Collection_def
      ModelMultiple_transform_def types_get_def plain_object_def object_members_def
      spec_bogus_def run_identity_def)

text \<open>
  Claim C5, amended. The constructor accepts every mapper specification: it stores it
  and registers the types \<^verbatim>\<open>simple\<close> and \<^verbatim>\<open>collection\<close>, whatever type names the rules
  use. A rule that names a type which is not registered, and which is not a name that
  the \<^verbatim>\<open>types\<close> object inherits a member under, is rejected at transform time: when
  for each rule before it (in the order of iteration) the type lookup is truthy and the
  rule's own transform returns, \<^verbatim>\<open>transform\<close> throws the error
  \<^verbatim>\<open>Type <name> not exits\<close> for it.
\<close>

theorem unregistered_type_rejected_at_transform:
  "ModelMultiple_new spec =
     Inr \<lparr>mapper = spec,
          types = [TypeModel_Simple \<mapsto> ModelSimple_class,
                   TypeModel_Collection \<mapsto> ModelCollection_class],
          types_prototype = Object_prototype\<rparr>
   \<and> (mapper this = before @ (key, opt) # rest \<longrightarrow> types this (mo_type opt) = None \<longrightarrow>
        \<not> inherited (types_prototype this) (mo_type opt) \<longrightarrow>
        (\<forall>(k, opt')\<in>set before. rule_maps run (types_get inherited this) data opt') \<longrightarrow>
        ModelMultiple_transform inherited run this data
          = Inl (JError (''Type '' @ mo_type opt @ '' not exits'')))"
proof (intro conjI impI)
  show "ModelMultiple_new spec =
     Inr \<lparr>mapper = spec,
          types = [TypeModel_Simple \<mapsto> ModelSimple_class,
                   TypeModel_Collection \<mapsto> ModelCollection_class],
          types_prototype = Object_prototype\<rparr>"
    by (simp add: ModelMultiple_new_def addType_def TypeModel_Simple_def
        TypeModel_Collection_def)
next
  assume m: "mapper this = before @ (key, opt) # rest"
    and "types this (mo_type opt) = None"
    and "\<not> inherited (types_prototype this) (mo_type opt)"
    and b: "\<forall>(k, opt')\<in>set before. rule_maps run (types_get inherited this) data opt'"
  then have "types_get inherited this (mo_type opt) = None"
    by (simp add: types_get_def)
  with b show "ModelMultiple_transform inherited run this data
      = Inl (JError (''Type '' @ mo_type opt @ '' not exits''))"
    by (simp add: ModelMultiple_transform_def m transform_keys_unregistered)
qed

theorem unregistered_type_rejected_at_transform_witness:
  "(case ModelMultiple_new spec_bogus of
      Inl e \<Rightarrow> Inl e
    | Inr this \<Rightarrow> ModelMultiple_transform plain_object run_identity this JNull)
   = Inl (JError ''Type bogus not exits'')"
  using unregistered_type_rejected_at_transform
    [where spec = spec_bogus
       and this = "\<lparr>mapper = spec_bogus,
            types = [TypeModel_Simple \<mapsto> ModelSimple_class,
                     TypeModel_Collection \<mapsto> ModelCollection_class],
            types_prototype = Object_prototype\<rparr>"
       and before = "[(''first'', \<lparr>mo_type = ''simple'', mo_model = JFun 0, mo_path = None\<rparr>)]"
       and key = "''out''" and opt = "\<lparr>mo_type = ''bogus'', mo_model = JFun 0, mo_path = None\<rparr>"
       and rest = "[]" and run = run_identity and data = JNull and inherited = plain_object]
  by (simp add: spec_bogus_def run_identity_def rule_maps_def types_get_def plain_object_def
      object_members_def TypeModel_Simple_def TypeModel_Collection_def)

end
